theory Spec2Isabelle
  imports Main "HOL-Library.Word"
begin

unbundle bit_operations_syntax

section \<open>Values of the program\<close>

text \<open>
  The orchestration script \<^verbatim>\<open>main.py\<close> records a clip, submits it to the Detect API,
  polls the status endpoint, forwards the redacted audio to the Realtime API over a
  websocket and rebuilds the streamed reply. Python \<^verbatim>\<open>bytes\<close> are lists of 8-bit
  words, Python \<^verbatim>\<open>str\<close> is \<^typ>\<open>string\<close>, and every exception the script can meet is a
  value of \<open>error\<close>.
\<close>

type_synonym byte = "8 word"

datatype error =
    AttributeError
  | KeyError string
  | TypeError
  | ValueError
  | BinasciiError
  | JSONDecodeError
  | FileNotFoundError
  | DeviceError
  | CouldntDecodeError
  | ConnectionError
  | ZeroDivisionError

text \<open>
  What \<^verbatim>\<open>json.loads\<close> and \<^verbatim>\<open>response.json()\<close> return, and what \<^verbatim>\<open>json.dumps\<close> takes: a
  Python \<^verbatim>\<open>dict\<close> is an association list read with \<^const>\<open>map_of\<close>.
\<close>

datatype json =
    JNull
  | JBool bool
  | JNum int
  | JStr string
  | JArr "json list"
  | JObj "(string \<times> json) list"

text \<open>Python truthiness, as used by \<^verbatim>\<open>if x and ...\<close>.\<close>

fun truthy :: "json \<Rightarrow> bool" where
  "truthy JNull = False"
| "truthy (JBool b) = b"
| "truthy (JNum n) = (n \<noteq> 0)"
| "truthy (JStr s) = (s \<noteq> [])"
| "truthy (JArr xs) = (xs \<noteq> [])"
| "truthy (JObj kvs) = (kvs \<noteq> [])"

text \<open>\<^verbatim>\<open>d.get(k)\<close>: only a dict has the method; a missing key gives \<^verbatim>\<open>None\<close>.\<close>

fun py_get :: "json \<Rightarrow> string \<Rightarrow> error + json" where
  "py_get (JObj kvs) k = (case map_of kvs k of None \<Rightarrow> Inr JNull | Some v \<Rightarrow> Inr v)"
| "py_get _ k = Inl AttributeError"

text \<open>
  \<^verbatim>\<open>d[k]\<close> with a string key: a dict raises \<^verbatim>\<open>KeyError\<close> on a missing key, a list or
  a string raises \<^verbatim>\<open>TypeError\<close> (their indices must be integers), and the other values
  are not subscriptable.
\<close>

fun py_getitem :: "json \<Rightarrow> string \<Rightarrow> error + json" where
  "py_getitem (JObj kvs) k = (case map_of kvs k of None \<Rightarrow> Inl (KeyError k) | Some v \<Rightarrow> Inr v)"
| "py_getitem _ k = Inl TypeError"

section \<open>Base64 of the standard library\<close>

definition b64_alphabet :: string where
  "b64_alphabet = ''ABCDEFGHIJKLMNOPQRSTUVWXYZabcdefghijklmnopqrstuvwxyz0123456789+/''"

definition table_b2a_base64 :: "byte \<Rightarrow> char" where
  "table_b2a_base64 v = b64_alphabet ! unat v"

definition table_a2b_base64 :: "char \<Rightarrow> byte option" where
  "table_a2b_base64 c = map_of (zip b64_alphabet (map of_nat [0..<64])) c"

text \<open>
  \<^verbatim>\<open>base64.b64encode\<close>: three bytes become four characters of the alphabet, and a
  last group of one or two bytes is padded with \<^verbatim>\<open>=\<close>.
\<close>

fun b64encode :: "byte list \<Rightarrow> string" where
  "b64encode [] = []"
| "b64encode [a] =
     [table_b2a_base64 (drop_bit 2 a), table_b2a_base64 (push_bit 4 (a AND 3)),
      CHR ''='', CHR ''='']"
| "b64encode [a, b] =
     [table_b2a_base64 (drop_bit 2 a),
      table_b2a_base64 (push_bit 4 (a AND 3) OR drop_bit 4 b),
      table_b2a_base64 (push_bit 2 (b AND 15)), CHR ''='']"
| "b64encode (a # b # c # rest) =
     [table_b2a_base64 (drop_bit 2 a),
      table_b2a_base64 (push_bit 4 (a AND 3) OR drop_bit 4 b),
      table_b2a_base64 (push_bit 2 (b AND 15) OR drop_bit 6 c),
      table_b2a_base64 (c AND 63)] @ b64encode rest"

text \<open>
  \<^verbatim>\<open>binascii.a2b_base64\<close> in its default, non-strict mode, which is what
  \<^verbatim>\<open>base64.b64decode(s)\<close> calls: characters outside the alphabet are skipped, a pad
  that completes a quad ends the decoding whatever follows it, and data that stops
  inside a quad is an error. The arguments are the decoder's \<^verbatim>\<open>quad_pos\<close>,
  \<^verbatim>\<open>leftchar\<close>, \<^verbatim>\<open>pads\<close> and the bytes written so far.
\<close>

fun a2b_base64 :: "nat \<Rightarrow> byte \<Rightarrow> nat \<Rightarrow> byte list \<Rightarrow> string \<Rightarrow> error + byte list" where
  "a2b_base64 quad_pos leftchar pads bin_data [] =
     (if quad_pos \<noteq> 0 then Inl BinasciiError else Inr bin_data)"
| "a2b_base64 quad_pos leftchar pads bin_data (this_ch # ascii_data) =
     (if this_ch = CHR ''='' then
        (if quad_pos \<ge> 2 \<and> quad_pos + (pads + 1) \<ge> 4 then Inr bin_data
         else a2b_base64 quad_pos leftchar (if quad_pos \<ge> 2 then pads + 1 else pads)
                bin_data ascii_data)
      else
        (case table_a2b_base64 this_ch of
           None \<Rightarrow> a2b_base64 quad_pos leftchar pads bin_data ascii_data
         | Some v \<Rightarrow>
             (if quad_pos = 0 then a2b_base64 1 v 0 bin_data ascii_data
              else if quad_pos = 1 then
                a2b_base64 2 (v AND 15) 0
                  (bin_data @ [push_bit 2 leftchar OR drop_bit 4 v]) ascii_data
              else if quad_pos = 2 then
                a2b_base64 3 (v AND 3) 0
                  (bin_data @ [push_bit 4 leftchar OR drop_bit 2 v]) ascii_data
              else
                a2b_base64 0 0 0 (bin_data @ [push_bit 6 leftchar OR v]) ascii_data)))"

text \<open>
  \<^verbatim>\<open>base64.b64decode(s)\<close> for a \<^verbatim>\<open>str\<close> argument: the string must be ASCII
  (\<^verbatim>\<open>ValueError\<close> otherwise) and is then handed to the decoder.
\<close>

definition b64decode :: "string \<Rightarrow> error + byte list" where
  "b64decode s =
     (if list_ex (\<lambda>c. of_char c \<ge> (128::nat)) s then Inl ValueError
      else a2b_base64 0 0 0 [] s)"

section \<open>Small pieces of Python\<close>

text \<open>\<^verbatim>\<open>str(n)\<close> for a non-negative integer, as the f-strings of the script print it.\<close>

definition digit_char :: "nat \<Rightarrow> char" where
  "digit_char d = ''0123456789'' ! d"

function str_nat :: "nat \<Rightarrow> string" where
  "str_nat n = (if n < 10 then [digit_char n] else str_nat (n div 10) @ [digit_char (n mod 10)])"
  by pat_completeness auto
termination
  by (relation "measure id") auto

text \<open>
  The configuration is read with \<^verbatim>\<open>os.getenv\<close>, which gives \<^verbatim>\<open>None\<close> for a variable
  that is not set; an f-string prints \<^verbatim>\<open>None\<close> as the text \<^verbatim>\<open>None\<close>, and
  \<^verbatim>\<open>json.dumps\<close> writes it as \<^verbatim>\<open>null\<close>.
\<close>

record config =
  API_KEY :: "string option"
  SKYFLOW_ACCOUNT_ID :: "string option"
  BEARER_TOKEN :: "string option"
  VAULT_ID :: "string option"
  URL :: "string option"
  URL_WS :: "string option"

definition fmt :: "string option \<Rightarrow> string" where
  "fmt v = (case v of None \<Rightarrow> ''None'' | Some s \<Rightarrow> s)"

definition json_of :: "string option \<Rightarrow> json" where
  "json_of v = (case v of None \<Rightarrow> JNull | Some s \<Rightarrow> JStr s)"

text \<open>\<^verbatim>\<open>s.split(sep)\<close> for a one-character separator: never an empty list.\<close>

fun py_split :: "char \<Rightarrow> string \<Rightarrow> string list" where
  "py_split sep [] = [[]]"
| "py_split sep (c # cs) =
     (if c = sep then [] # py_split sep cs
      else (case py_split sep cs of [] \<Rightarrow> [[c]] | x # xs \<Rightarrow> (c # x) # xs))"

text \<open>\<^verbatim>\<open>k in s\<close> for two strings: \<open>k\<close> occurs in \<open>s\<close> as a substring.\<close>

fun str_contains :: "string \<Rightarrow> string \<Rightarrow> bool" where
  "str_contains k [] = (k = [])"
| "str_contains k (c # cs) = (take (length k) (c # cs) = k \<or> str_contains k cs)"

text \<open>
  \<^verbatim>\<open>k in x\<close> with a string \<open>k\<close>: key membership for a dict, element membership for a
  list, substring for a string; the other values are not iterable.
\<close>

fun py_contains :: "string \<Rightarrow> json \<Rightarrow> error + bool" where
  "py_contains k (JObj kvs) = Inr (k \<in> fst ` set kvs)"
| "py_contains k (JArr xs) = Inr (JStr k \<in> set xs)"
| "py_contains k (JStr s) = Inr (str_contains k s)"
| "py_contains k _ = Inl TypeError"

text \<open>
  \<^verbatim>\<open>for x in v\<close>: a list gives its elements, a dict its keys, a string its
  characters; the other values are not iterable.
\<close>

fun py_iter :: "json \<Rightarrow> error + json list" where
  "py_iter (JArr xs) = Inr xs"
| "py_iter (JObj kvs) = Inr (map (\<lambda>kv. JStr (fst kv)) kvs)"
| "py_iter (JStr s) = Inr (map (\<lambda>c. JStr [c]) s)"
| "py_iter _ = Inl TypeError"

section \<open>The outside world\<close>

text \<open>
  Everything the script does to the outside is an event of the trace, in the order
  it happens; the files it writes are kept as well, latest first, because two of them
  are read back.
\<close>

type_synonym headers = "(string \<times> string option) list"

record audio_segment =
  sample_width :: nat
  frame_rate :: nat
  channels :: nat
  raw_data :: "byte list"

datatype event =
    Print string
  | Get string headers
  | Post string headers json
  | Sleep nat
  | Write string "byte list"
  | Read string
  | Connect "string option" headers
  | Send json

record world =
  files :: "(string \<times> byte list) list"
  status_calls :: nat
  trace :: "event list"

definition emit :: "event \<Rightarrow> world \<Rightarrow> world" where
  "emit e w = w\<lparr>trace := trace w @ [e]\<rparr>"

definition write_file :: "string \<Rightarrow> byte list \<Rightarrow> world \<Rightarrow> world" where
  "write_file path bs w = emit (Write path bs) (w\<lparr>files := (path, bs) # files w\<rparr>)"

definition read_file :: "string \<Rightarrow> world \<Rightarrow> (error + byte list) \<times> world" where
  "read_file path w =
     (case map_of (files w) path of
        None \<Rightarrow> (Inl FileNotFoundError, emit (Read path) w)
      | Some bs \<Rightarrow> (Inr bs, emit (Read path) w))"

text \<open>
  An HTTP response as \<^verbatim>\<open>requests\<close> hands it over: \<open>body_json\<close> is what
  \<^verbatim>\<open>response.json()\<close> returns, \<open>None\<close> when the body is not JSON and the call raises.
\<close>

record http_response =
  status_code :: nat
  resp_text :: string
  body_json :: "json option"

text \<open>
  The services and libraries the script delegates to are parameters: the sound device
  with the WAV writer, the two REST endpoints (the status endpoint answers its
  \<open>i\<close>-th request with \<open>status_endpoint i\<close>), the codec routines behind
  \<^verbatim>\<open>pydub\<close>, and the websocket (the handshake, then the messages it delivers, each
  already through \<^verbatim>\<open>json.loads\<close>, \<open>None\<close> where that raises).
\<close>

record env =
  sound_device :: "nat \<Rightarrow> nat \<Rightarrow> error + byte list"
  detect_endpoint :: http_response
  status_endpoint :: "nat \<Rightarrow> http_response"
  from_file :: "byte list \<Rightarrow> error + audio_segment"
  ratecv :: "audio_segment \<Rightarrow> nat \<Rightarrow> byte list"
  to_channels :: "audio_segment \<Rightarrow> nat \<Rightarrow> byte list"
  lin2lin :: "audio_segment \<Rightarrow> nat \<Rightarrow> byte list"
  wav_export :: "audio_segment \<Rightarrow> byte list"
  ws_handshake :: "error option"
  ws_messages :: "json option list"

section \<open>The audio library\<close>

text \<open>
  The constructor \<^verbatim>\<open>AudioSegment(data, sample_width, frame_rate, channels)\<close> of
  \<^verbatim>\<open>pydub\<close> takes the raw samples as they are and refuses data that does not hold
  whole frames.
\<close>

definition AudioSegment :: "byte list \<Rightarrow> nat \<Rightarrow> nat \<Rightarrow> nat \<Rightarrow> error + audio_segment" where
  "AudioSegment data sw fr ch =
     (if sw * ch = 0 then Inl ZeroDivisionError
      else if length data mod (sw * ch) \<noteq> 0 then Inl ValueError
      else Inr \<lparr>sample_width = sw, frame_rate = fr, channels = ch, raw_data = data\<rparr>)"

text \<open>
  The three setters return the segment itself when it already has the value asked
  for, and otherwise a segment with the new value and the converted samples; the
  conversions are the codec's. \<^verbatim>\<open>set_channels\<close> converts from mono and to mono only.
\<close>

definition set_frame_rate :: "env \<Rightarrow> nat \<Rightarrow> audio_segment \<Rightarrow> audio_segment" where
  "set_frame_rate env fr a =
     (if fr = frame_rate a then a
      else a\<lparr>frame_rate := fr, raw_data := (if raw_data a = [] then [] else ratecv env a fr)\<rparr>)"

definition set_channels :: "env \<Rightarrow> nat \<Rightarrow> audio_segment \<Rightarrow> error + audio_segment" where
  "set_channels env ch a =
     (if ch = channels a then Inr a
      else if ch = 1 \<or> channels a = 1 then Inr (a\<lparr>channels := ch, raw_data := to_channels env a ch\<rparr>)
      else Inl ValueError)"

definition set_sample_width :: "env \<Rightarrow> nat \<Rightarrow> audio_segment \<Rightarrow> audio_segment" where
  "set_sample_width env sw a =
     (if sw = sample_width a then a
      else a\<lparr>sample_width := sw, raw_data := lin2lin env a sw\<rparr>)"

section \<open>The functions of the script\<close>

text \<open>
  Every function takes the world and returns it with its result, \<open>Inl\<close> for an
  exception that leaves the function. \<^verbatim>\<open>record_audio\<close>: the sound device gives the
  bytes of the WAV file that is written to \<^verbatim>\<open>input.wav\<close>.
\<close>

definition record_audio :: "env \<Rightarrow> nat \<Rightarrow> nat \<Rightarrow> world \<Rightarrow> (error + string) \<times> world" where
  "record_audio env duration fs w =
     (let w1 = emit (Print ''Recording...'') w in
      case sound_device env (duration * fs) fs of
        Inl e \<Rightarrow> (Inl e, w1)
      | Inr wav \<Rightarrow>
          (Inr ''input.wav'', emit (Print ''Recording complete.'') (write_file ''input.wav'' wav w1)))"

definition convert_wav_to_base64 :: "string \<Rightarrow> world \<Rightarrow> (error + string) \<times> world" where
  "convert_wav_to_base64 file_path w =
     (case read_file file_path w of
        (Inl e, w1) \<Rightarrow> (Inl e, w1)
      | (Inr wav, w1) \<Rightarrow> (Inr (b64encode wav), w1))"

text \<open>Line 45: resample to 24 kHz, mono, 16-bit samples.\<close>

definition pcm16_24k_mono :: "env \<Rightarrow> audio_segment \<Rightarrow> error + audio_segment" where
  "pcm16_24k_mono env audio =
     (case set_channels env 1 (set_frame_rate env 24000 audio) of
        Inl e \<Rightarrow> Inl e
      | Inr a \<Rightarrow> Inr (set_sample_width env 2 a))"

definition audio_to_base64 :: "env \<Rightarrow> string \<Rightarrow> world \<Rightarrow> (error + string) \<times> world" where
  "audio_to_base64 env audio_file_path w =
     (case read_file audio_file_path w of
        (Inl e, w1) \<Rightarrow> (Inl e, w1)
      | (Inr bs, w1) \<Rightarrow>
          (case from_file env bs of
             Inl e \<Rightarrow> (Inl e, w1)
           | Inr audio \<Rightarrow>
               (case pcm16_24k_mono env audio of
                  Inl e \<Rightarrow> (Inl e, w1)
                | Inr audio' \<Rightarrow> (Inr (b64encode (raw_data audio')), w1))))"

definition send_audio :: "string \<Rightarrow> world \<Rightarrow> world" where
  "send_audio base64_audio w =
     (let event = JObj
            [(''type'', JStr ''conversation.item.create''),
             (''item'', JObj
                [(''type'', JStr ''message''),
                 (''role'', JStr ''user''),
                 (''content'', JArr
                    [JObj [(''type'', JStr ''input_audio''), (''audio'', JStr base64_audio)]])])]
      in emit (Send (JObj [(''type'', JStr ''response.create'')])) (emit (Send event) w))"

definition detect_payload :: "config \<Rightarrow> string \<Rightarrow> json" where
  "detect_payload cfg base64_audio = JObj
     [(''file'', JStr base64_audio),
      (''data_format'', JStr ''wav''),
      (''audio'', JObj
         [(''output_processed_audio'', JBool True),
          (''options'', JObj
             [(''bleep_gain'', JNum (- 30)),
              (''bleep_start_padding'', JNum 0),
              (''bleep_stop_padding'', JNum 0)])]),
      (''accuracy'', JStr ''high_multilingual''),
      (''restrict_entity_types'', JArr [JStr ''location'', JStr ''ssn'', JStr ''account_number'']),
      (''input_type'', JStr ''BASE64''),
      (''vault_id'', json_of (VAULT_ID cfg))]"

definition detect_audio :: "config \<Rightarrow> env \<Rightarrow> string \<Rightarrow> world \<Rightarrow> (error + json) \<times> world" where
  "detect_audio cfg env file_path w =
     (case convert_wav_to_base64 file_path w of
        (Inl e, w0) \<Rightarrow> (Inl e, w0)
      | (Inr base64_audio, w0) \<Rightarrow>
          (let url = fmt (URL cfg) @ ''/v1/detect/file'';
               headers = [(''Content-Type'', Some ''application/json''),
                          (''x-skyflow-account-id'', SKYFLOW_ACCOUNT_ID cfg),
                          (''Authorization'', Some (''Bearer '' @ fmt (BEARER_TOKEN cfg)))];
               payload = detect_payload cfg base64_audio;
               w1 = emit (Post url headers payload) w0;
               response = detect_endpoint env
           in if status_code response = 200 then
                (case body_json response of
                   None \<Rightarrow> (Inl JSONDecodeError, w1)
                 | Some j \<Rightarrow> (Inr j, w1))
              else
                (Inr JNull,
                 emit (Print (''Error: '' @ str_nat (status_code response) @ '' - ''
                              @ resp_text response)) w1)))"

definition check_status :: "config \<Rightarrow> env \<Rightarrow> string \<Rightarrow> world \<Rightarrow> (error + json) \<times> world" where
  "check_status cfg env status_id w =
     (let url = fmt (URL cfg) @ ''/v1/detect/status/'' @ status_id @ ''?vault_id=''
                @ fmt (VAULT_ID cfg);
          headers = [(''Authorization'', Some (''Bearer '' @ fmt (BEARER_TOKEN cfg)))];
          response = status_endpoint env (status_calls w);
          w1 = emit (Get url headers) (w\<lparr>status_calls := Suc (status_calls w)\<rparr>)
      in if status_code response = 200 then
           (case body_json response of
              None \<Rightarrow> (Inl JSONDecodeError, w1)
            | Some j \<Rightarrow> (Inr j, w1))
         else
           (Inr JNull,
            emit (Print (''Error: '' @ str_nat (status_code response) @ '' - ''
                         @ resp_text response)) w1))"

text \<open>
  Lines 174 to 190, the branch of \<^verbatim>\<open>response.audio.done\<close>: the accumulated string is
  decoded once, wrapped as 16-bit, 24 kHz, mono audio and exported to \<^verbatim>\<open>output.wav\<close>.
\<close>

definition on_audio_done :: "env \<Rightarrow> string \<Rightarrow> world \<Rightarrow> (error + unit) \<times> world" where
  "on_audio_done env accumulated_audio w =
     (let w1 = emit (Print ''Streaming completed'') w in
      case b64decode accumulated_audio of
        Inl e \<Rightarrow> (Inl e, w1)
      | Inr pcm_audio \<Rightarrow>
          (case AudioSegment pcm_audio 2 24000 1 of
             Inl e \<Rightarrow> (Inl e, w1)
           | Inr audio \<Rightarrow>
               (Inr (), emit (Print ''Assistant's reply saved to output.wav'')
                          (write_file ''output.wav'' (wav_export env audio) w1))))"

text \<open>
  Lines 163 to 190, the \<^verbatim>\<open>async for\<close> over the messages of the websocket, with the
  accumulator as an argument. The loop ends when the connection has no more messages
  or at the \<^verbatim>\<open>break\<close> after the reply is saved.
\<close>

fun receive_loop :: "env \<Rightarrow> string \<Rightarrow> json option list \<Rightarrow> world \<Rightarrow> (error + unit) \<times> world" where
  "receive_loop env accumulated_audio [] w = (Inr (), w)"
| "receive_loop env accumulated_audio (message # rest) w =
     (case message of
        None \<Rightarrow> (Inl JSONDecodeError, w)
      | Some parsed_message \<Rightarrow>
          (case py_get parsed_message ''type'' of
             Inl e \<Rightarrow> (Inl e, w)
           | Inr ty \<Rightarrow>
               if ty = JStr ''response.audio.delta'' then
                 (case py_get parsed_message ''delta'' of
                    Inl e \<Rightarrow> (Inl e, w)
                  | Inr (JStr delta) \<Rightarrow> receive_loop env (accumulated_audio @ delta) rest w
                  | Inr _ \<Rightarrow> (Inl TypeError, w))
               else if ty = JStr ''response.audio.done'' then
                 on_audio_done env accumulated_audio w
               else receive_loop env accumulated_audio rest w))"

text \<open>\<^verbatim>\<open>base64.b64decode\<close> of a value that need not be a string.\<close>

fun py_b64decode :: "json \<Rightarrow> error + byte list" where
  "py_b64decode (JStr s) = b64decode s"
| "py_b64decode _ = Inl TypeError"

text \<open>
  Lines 142 to 190, the body of the \<^verbatim>\<open>if\<close> for an output of type
  \<^verbatim>\<open>redacted_audio\<close>. Opening \<^verbatim>\<open>processed_output.wav\<close> for writing empties it before
  the content is decoded.
\<close>

definition redacted_audio :: "config \<Rightarrow> env \<Rightarrow> json \<Rightarrow> world \<Rightarrow> (error + unit) \<times> world" where
  "redacted_audio cfg env output w =
     (case py_getitem output ''processedFile'' of
        Inl e \<Rightarrow> (Inl e, w)
      | Inr processed_audio_base64 \<Rightarrow>
          (let processed_audio_path = ''processed_output.wav'' in
           case py_b64decode processed_audio_base64 of
             Inl e \<Rightarrow> (Inl e, write_file processed_audio_path [] w)
           | Inr bs \<Rightarrow>
               (let w1 = emit (Print (''Processed audio saved as '' @ processed_audio_path))
                           (write_file processed_audio_path bs w) in
                case audio_to_base64 env processed_audio_path w1 of
                  (Inl e, w1') \<Rightarrow> (Inl e, w1')
                | (Inr base64_audio, w1') \<Rightarrow>
                    (let w2 = emit (Connect (URL_WS cfg)
                                 [(''Authorization'', Some (''Bearer '' @ fmt (API_KEY cfg))),
                                  (''OpenAI-Beta'', Some ''realtime=v1'')]) w1' in
                     case ws_handshake env of
                       Some e \<Rightarrow> (Inl e, w2)
                     | None \<Rightarrow>
                         receive_loop env [] (ws_messages env)
                           (send_audio base64_audio
                              (emit (Print ''Connected to OpenAI Realtime API.'') w2))))))"

text \<open>
  Lines 140 to 191, the \<^verbatim>\<open>for\<close> over the outputs: the \<^verbatim>\<open>break\<close> of line 191 leaves
  the loop after the first output of type \<^verbatim>\<open>redacted_audio\<close>.
\<close>

fun for_output :: "config \<Rightarrow> env \<Rightarrow> json list \<Rightarrow> world \<Rightarrow> (error + unit) \<times> world" where
  "for_output cfg env [] w = (Inr (), w)"
| "for_output cfg env (output # rest) w =
     (case py_getitem output ''processedFileType'' of
        Inl e \<Rightarrow> (Inl e, w)
      | Inr ty \<Rightarrow>
          if ty = JStr ''redacted_audio'' then redacted_audio cfg env output w
          else for_output cfg env rest w)"

text \<open>Line 139: \<^verbatim>\<open>status_response and status_response.get("status") == "SUCCESS"\<close>.\<close>

definition is_success :: "json \<Rightarrow> error + bool" where
  "is_success status_response =
     (if \<not> truthy status_response then Inr False
      else case py_get status_response ''status'' of
             Inl e \<Rightarrow> Inl e
           | Inr st \<Rightarrow> Inr (st = JStr ''SUCCESS''))"

text \<open>Lines 140 to 192, the branch of a successful status.\<close>

definition on_success :: "config \<Rightarrow> env \<Rightarrow> json \<Rightarrow> world \<Rightarrow> (error + unit) \<times> world" where
  "on_success cfg env status_response w =
     (case py_getitem status_response ''output'' of
        Inl e \<Rightarrow> (Inl e, w)
      | Inr outputs \<Rightarrow>
          (case py_iter outputs of
             Inl e \<Rightarrow> (Inl e, w)
           | Inr xs \<Rightarrow> for_output cfg env xs w))"

text \<open>
  Lines 137 to 198, one turn of the \<^verbatim>\<open>while True\<close> loop: \<open>Inl\<close> is the result
  with which the loop is left (a \<^verbatim>\<open>break\<close> or an exception), \<open>Inr\<close> the world in
  which the next turn starts.
\<close>

definition poll_once ::
  "config \<Rightarrow> env \<Rightarrow> string \<Rightarrow> world \<Rightarrow> ((error + unit) \<times> world) + world" where
  "poll_once cfg env status_id w =
     (case check_status cfg env status_id w of
        (Inl e, w1) \<Rightarrow> Inl (Inl e, w1)
      | (Inr status_response, w1) \<Rightarrow>
          (case is_success status_response of
             Inl e \<Rightarrow> Inl (Inl e, w1)
           | Inr ok \<Rightarrow>
               if ok then Inl (on_success cfg env status_response w1)
               else
                 (case py_get status_response ''status'' of
                    Inl e \<Rightarrow> Inl (Inl e, w1)
                  | Inr st \<Rightarrow>
                      if st = JStr ''FAILED'' then
                        Inl (Inr (), emit (Print ''Audio processing failed.'') w1)
                      else
                        Inr (emit (Sleep 2)
                               (emit (Print ''Processing... checking again in 2 seconds.'') w1)))))"

text \<open>
  The loop has no bound, so it is a partial function: \<open>None\<close> is a run that polls
  for ever.
\<close>

partial_function (option) poll_loop ::
  "config \<Rightarrow> env \<Rightarrow> string \<Rightarrow> world \<Rightarrow> ((error + unit) \<times> world) option" where
  "poll_loop cfg env status_id w =
     (case poll_once cfg env status_id w of
        Inl r \<Rightarrow> Some r
      | Inr w' \<Rightarrow> poll_loop cfg env status_id w')"

declare poll_loop.simps [code]

text \<open>Line 132: \<^verbatim>\<open>detect_response and 'status_url' in detect_response\<close>.\<close>

definition has_status_url :: "json \<Rightarrow> error + bool" where
  "has_status_url detect_response =
     (if \<not> truthy detect_response then Inr False
      else py_contains ''status_url'' detect_response)"

text \<open>Line 133: the last piece of the status URL after splitting it at \<^verbatim>\<open>/\<close>.\<close>

definition status_id_of :: "json \<Rightarrow> error + string" where
  "status_id_of detect_response =
     (case py_getitem detect_response ''status_url'' of
        Inl e \<Rightarrow> Inl e
      | Inr (JStr status_url) \<Rightarrow> Inr (last (py_split CHR ''/'' status_url))
      | Inr _ \<Rightarrow> Inl AttributeError)"

definition main :: "config \<Rightarrow> env \<Rightarrow> world \<Rightarrow> ((error + unit) \<times> world) option" where
  "main cfg env w =
     (case record_audio env 10 44100 w of
        (Inl e, w1) \<Rightarrow> Some (Inl e, w1)
      | (Inr audio_file_path, w1) \<Rightarrow>
          (case detect_audio cfg env audio_file_path
                  (emit (Print ''Sending audio for detection...'') w1) of
             (Inl e, w2) \<Rightarrow> Some (Inl e, w2)
           | (Inr detect_response, w2) \<Rightarrow>
               (case has_status_url detect_response of
                  Inl e \<Rightarrow> Some (Inl e, w2)
                | Inr found \<Rightarrow>
                    if found then
                      (case status_id_of detect_response of
                         Inl e \<Rightarrow> Some (Inl e, w2)
                       | Inr status_id \<Rightarrow> poll_loop cfg env status_id w2)
                    else Some (Inr (), emit (Print ''Error during audio detection.'') w2))))"

section \<open>Sample inputs\<close>

definition cfg_ex :: config where
  "cfg_ex = \<lparr>API_KEY = Some ''sk-1'', SKYFLOW_ACCOUNT_ID = Some ''acct'',
     BEARER_TOKEN = Some ''tok'', VAULT_ID = Some ''v1'', URL = Some ''https://d.example'',
     URL_WS = Some ''wss://r.example''\<rparr>"

definition world_ex :: world where
  "world_ex = \<lparr>files = [], status_calls = 0, trace = []\<rparr>"

definition response_ex :: "nat \<Rightarrow> string \<Rightarrow> json \<Rightarrow> http_response" where
  "response_ex code body j = \<lparr>status_code = code, resp_text = body, body_json = Some j\<rparr>"

definition snapshot_ex :: "string \<Rightarrow> json list \<Rightarrow> json" where
  "snapshot_ex st outputs = JObj [(''status'', JStr st), (''output'', JArr outputs)]"

definition output_ex :: "string \<Rightarrow> string \<Rightarrow> json" where
  "output_ex ty b64 = JObj [(''processedFileType'', JStr ty), (''processedFile'', JStr b64)]"

definition audio_delta :: "string \<Rightarrow> json" where
  "audio_delta d = JObj [(''type'', JStr ''response.audio.delta''), (''delta'', JStr d)]"

definition audio_done :: json where
  "audio_done = JObj [(''type'', JStr ''response.audio.done'')]"

text \<open>
  A sample environment: the recording is four bytes, the Detect API accepts the
  upload, the codec reads a file as 16-bit mono audio at 44.1 kHz and converts by
  leaving the samples alone, and the status endpoint and the messages of the
  websocket are given.
\<close>

definition env_ex :: "(nat \<Rightarrow> http_response) \<Rightarrow> json option list \<Rightarrow> env" where
  "env_ex status msgs =
     \<lparr>sound_device = (\<lambda>frames fs. Inr [82, 73, 70, 70]),
      detect_endpoint = response_ex 200 []
        (JObj [(''status_url'', JStr ''https://d.example/v1/detect/status/job-7'')]),
      status_endpoint = status,
      from_file = (\<lambda>bs. Inr \<lparr>sample_width = 2, frame_rate = 44100, channels = 1, raw_data = bs\<rparr>),
      ratecv = (\<lambda>a fr. raw_data a),
      to_channels = (\<lambda>a ch. raw_data a),
      lin2lin = (\<lambda>a sw. raw_data a),
      wav_export = raw_data,
      ws_handshake = None,
      ws_messages = msgs\<rparr>"

text \<open>
  A status endpoint that answers its first requests from a list and every later one
  with a last response, and a world in which the recording is already on disk.
\<close>

definition status_ex :: "http_response list \<Rightarrow> http_response \<Rightarrow> nat \<Rightarrow> http_response" where
  "status_ex rs final i = (if i < length rs then rs ! i else final)"

definition world_rec_ex :: world where
  "world_rec_ex = \<lparr>files = [(''input.wav'', [82, 73, 70, 70])], status_calls = 0, trace = []\<rparr>"

section \<open>Words of the specification\<close>

text \<open>
  The spec's words for the job identifier, the trailing path segment of the status
  URL: what follows the last \<^verbatim>\<open>/\<close>.
\<close>

definition trailing_segment :: "string \<Rightarrow> string" where
  "trailing_segment u = rev (takeWhile (\<lambda>c. c \<noteq> CHR ''/'') (rev u))"

text \<open>
  The kinds of events a run leaves in the trace: what the branch of a successful
  status can do, what the receive loop can do, a poll request, a sleep, and the events
  of the stages that follow the polling (the redacted file written and read back for
  transcoding, the connection opened, a message sent, the reply written).
\<close>

fun after_success :: "event \<Rightarrow> bool" where
  "after_success (Print s) = True"
| "after_success (Write p bs) = True"
| "after_success (Read p) = True"
| "after_success (Connect u h) = True"
| "after_success (Send j) = True"
| "after_success _ = False"

fun reply_event :: "event \<Rightarrow> bool" where
  "reply_event (Print s) = True"
| "reply_event (Write p bs) = (p = ''output.wav'')"
| "reply_event _ = False"

fun is_poll :: "event \<Rightarrow> bool" where
  "is_poll (Get u h) = True"
| "is_poll _ = False"

fun is_sleep :: "event \<Rightarrow> bool" where
  "is_sleep (Sleep n) = True"
| "is_sleep _ = False"

fun downstream_event :: "event \<Rightarrow> bool" where
  "downstream_event (Connect u h) = True"
| "downstream_event (Send j) = True"
| "downstream_event (Read p) = (p = ''processed_output.wav'')"
| "downstream_event (Write p bs) = (p = ''processed_output.wav'' \<or> p = ''output.wav'')"
| "downstream_event _ = False"

text \<open>
  The request of the poll operation for a job, the request of the submit operation
  for a recording, the events of \<open>N\<close> polls that find the job still pending, and the
  world once the clip is recorded and submitted.
\<close>

definition poll_request :: "config \<Rightarrow> string \<Rightarrow> event" where
  "poll_request cfg status_id =
     Get (fmt (URL cfg) @ ''/v1/detect/status/'' @ status_id @ ''?vault_id='' @ fmt (VAULT_ID cfg))
       [(''Authorization'', Some (''Bearer '' @ fmt (BEARER_TOKEN cfg)))]"

definition detect_request :: "config \<Rightarrow> byte list \<Rightarrow> event" where
  "detect_request cfg wav =
     Post (fmt (URL cfg) @ ''/v1/detect/file'')
       [(''Content-Type'', Some ''application/json''),
        (''x-skyflow-account-id'', SKYFLOW_ACCOUNT_ID cfg),
        (''Authorization'', Some (''Bearer '' @ fmt (BEARER_TOKEN cfg)))]
       (detect_payload cfg (b64encode wav))"

definition pending_polls :: "config \<Rightarrow> string \<Rightarrow> nat \<Rightarrow> event list" where
  "pending_polls cfg status_id N =
     concat (replicate N [poll_request cfg status_id,
                          Print ''Processing... checking again in 2 seconds.'', Sleep 2])"

definition submitted :: "config \<Rightarrow> byte list \<Rightarrow> world \<Rightarrow> world" where
  "submitted cfg wav w =
     w\<lparr>files := (''input.wav'', wav) # files w,
       trace := trace w @ [Print ''Recording...'', Write ''input.wav'' wav,
                           Print ''Recording complete.'', Print ''Sending audio for detection...'',
                           Read ''input.wav'', detect_request cfg wav]\<rparr>"

text \<open>
  Status snapshots as the status endpoint answers them: a dict whose status is
  neither \<^verbatim>\<open>SUCCESS\<close> nor \<^verbatim>\<open>FAILED\<close> (or is missing), and a dict whose status is
  \<^verbatim>\<open>FAILED\<close>, each with HTTP status 200. An output entry of another kind carries a
  \<^verbatim>\<open>processedFileType\<close> that is not \<^verbatim>\<open>redacted_audio\<close>.
\<close>

definition pending_snapshot :: "http_response \<Rightarrow> bool" where
  "pending_snapshot r =
     (status_code r = 200 \<and>
      (case body_json r of
         Some (JObj kvs) \<Rightarrow>
           map_of kvs ''status'' \<noteq> Some (JStr ''SUCCESS'')
           \<and> map_of kvs ''status'' \<noteq> Some (JStr ''FAILED'')
       | _ \<Rightarrow> False))"

definition failed_snapshot :: "http_response \<Rightarrow> bool" where
  "failed_snapshot r =
     (status_code r = 200 \<and>
      (case body_json r of
         Some (JObj kvs) \<Rightarrow> map_of kvs ''status'' = Some (JStr ''FAILED'')
       | _ \<Rightarrow> False))"

definition other_output :: "json \<Rightarrow> bool" where
  "other_output output =
     (case py_getitem output ''processedFileType'' of
        Inl e \<Rightarrow> False
      | Inr ty \<Rightarrow> ty \<noteq> JStr ''redacted_audio'')"

section \<open>Facts about the helpers\<close>

lemma py_split_not_Nil: "py_split sep s \<noteq> []"
  by (induction s) (auto split: list.splits)

lemma py_split_append:
  "py_split sep (a @ sep # b) = py_split sep a @ py_split sep b"
proof (induction a)
  case Nil
  then show ?case by simp
next
  case (Cons c a)
  obtain x xs where x: "py_split sep a = x # xs"
    using py_split_not_Nil [of sep a] by (cases "py_split sep a") auto
  show ?case using Cons x by simp
qed

lemma py_split_no_sep: "sep \<notin> set s \<Longrightarrow> py_split sep s = [s]"
  by (induction s) auto

lemma last_py_split: "last (py_split CHR ''/'' u) = trailing_segment u"
proof (cases "CHR ''/'' \<in> set u")
  case False
  then have tw: "takeWhile (\<lambda>c. c \<noteq> CHR ''/'') (rev u) = rev u"
    by (auto simp: takeWhile_eq_all_conv)
  show ?thesis
    unfolding trailing_segment_def tw using False by (simp add: py_split_no_sep)
next
  case True
  then obtain a b where u: "u = a @ CHR ''/'' # b" and b: "CHR ''/'' \<notin> set b"
    by (auto dest: split_list_last)
  have "takeWhile (\<lambda>c. c \<noteq> CHR ''/'') (rev b @ CHR ''/'' # rev a) = rev b"
    using b by (subst takeWhile_append2) auto
  then show ?thesis
    using b by (simp add: u py_split_append py_split_no_sep trailing_segment_def)
qed

lemma trace_emit [simp]: "trace (emit e w) = trace w @ [e]"
  and files_emit [simp]: "files (emit e w) = files w"
  and status_calls_emit [simp]: "status_calls (emit e w) = status_calls w"
  by (simp_all add: emit_def)

lemma check_status_result:
  "fst (check_status cfg env status_id w) =
     (if status_code (status_endpoint env (status_calls w)) = 200
      then (case body_json (status_endpoint env (status_calls w)) of
              None \<Rightarrow> Inl JSONDecodeError | Some j \<Rightarrow> Inr j)
      else Inr JNull)"
  by (simp add: check_status_def Let_def split: option.splits)

lemma check_status_trace:
  "trace (snd (check_status cfg env status_id w)) =
     trace w @ Get (fmt (URL cfg) @ ''/v1/detect/status/'' @ status_id @ ''?vault_id=''
                    @ fmt (VAULT_ID cfg))
                 [(''Authorization'', Some (''Bearer '' @ fmt (BEARER_TOKEN cfg)))]
       # (if status_code (status_endpoint env (status_calls w)) = 200 then []
          else [Print (''Error: '' @ str_nat (status_code (status_endpoint env (status_calls w)))
                       @ '' - '' @ resp_text (status_endpoint env (status_calls w)))])"
  by (simp add: check_status_def Let_def split: option.splits)

lemma detect_audio_result:
  "map_of (files w) file_path = Some wav \<Longrightarrow>
   fst (detect_audio cfg env file_path w) =
     (if status_code (detect_endpoint env) = 200
      then (case body_json (detect_endpoint env) of
              None \<Rightarrow> Inl JSONDecodeError | Some j \<Rightarrow> Inr j)
      else Inr JNull)"
  by (simp add: detect_audio_def convert_wav_to_base64_def read_file_def Let_def split: option.splits)

lemma detect_audio_trace:
  "map_of (files w) file_path = Some wav \<Longrightarrow>
   trace (snd (detect_audio cfg env file_path w)) =
     trace w @ Read file_path
       # Post (fmt (URL cfg) @ ''/v1/detect/file'')
           [(''Content-Type'', Some ''application/json''),
            (''x-skyflow-account-id'', SKYFLOW_ACCOUNT_ID cfg),
            (''Authorization'', Some (''Bearer '' @ fmt (BEARER_TOKEN cfg)))]
           (detect_payload cfg (b64encode wav))
       # (if status_code (detect_endpoint env) = 200 then []
          else [Print (''Error: '' @ str_nat (status_code (detect_endpoint env))
                       @ '' - '' @ resp_text (detect_endpoint env))])"
  by (simp add: detect_audio_def convert_wav_to_base64_def read_file_def Let_def split: option.splits)

lemma trace_write_file [simp]: "trace (write_file p bs w) = trace w @ [Write p bs]"
  and files_write_file [simp]: "files (write_file p bs w) = (p, bs) # files w"
  and status_calls_write_file [simp]: "status_calls (write_file p bs w) = status_calls w"
  by (simp_all add: write_file_def)

lemma on_audio_done_effect:
  "status_calls (snd (on_audio_done env acc w)) = status_calls w \<and>
   (\<exists>evs. trace (snd (on_audio_done env acc w)) = trace w @ evs \<and> list_all reply_event evs)"
  by (simp add: on_audio_done_def Let_def split: sum.splits)

lemma receive_loop_effect:
  "status_calls (snd (receive_loop env acc ms w)) = status_calls w \<and>
   (\<exists>evs. trace (snd (receive_loop env acc ms w)) = trace w @ evs \<and> list_all reply_event evs)"
proof (induction ms arbitrary: acc)
  case Nil
  then show ?case by simp
next
  case (Cons m ms)
  show ?case
  proof (cases m)
    case None
    then show ?thesis by simp
  next
    case (Some parsed)
    show ?thesis
    proof (cases "py_get parsed ''type''")
      case (Inl e)
      with Some show ?thesis by simp
    next
      case (Inr ty)
      consider (d1) "ty = JStr ''response.audio.delta''"
        | (d2) "ty = JStr ''response.audio.done''"
        | (other) "ty \<noteq> JStr ''response.audio.delta''" "ty \<noteq> JStr ''response.audio.done''"
        by blast
      then show ?thesis
      proof cases
        case d1
        show ?thesis
        proof (cases "py_get parsed ''delta''")
          case (Inl e)
          with Some Inr d1 show ?thesis by simp
        next
          case d: (Inr v)
          show ?thesis
            using Some Inr d1 d Cons.IH by (cases v) simp_all
        qed
      next
        case d2
        with Some Inr show ?thesis using on_audio_done_effect [of env acc w] by simp
      next
        case other
        with Some Inr show ?thesis using Cons.IH by simp
      qed
    qed
  qed
qed

lemma reply_event_after_success: "reply_event e \<Longrightarrow> after_success e"
  by (cases e) simp_all

lemma list_all_reply_after_success: "list_all reply_event evs \<Longrightarrow> list_all after_success evs"
  by (induction evs) (auto intro: reply_event_after_success)

lemma audio_to_base64_effect:
  "status_calls (snd (audio_to_base64 env path w)) = status_calls w \<and>
   files (snd (audio_to_base64 env path w)) = files w \<and>
   trace (snd (audio_to_base64 env path w)) = trace w @ [Read path]"
  by (simp add: audio_to_base64_def read_file_def split: option.splits sum.splits)

lemma send_audio_effect:
  "status_calls (send_audio b w) = status_calls w \<and> files (send_audio b w) = files w \<and>
   (\<exists>j. trace (send_audio b w) = trace w @ [Send j, Send (JObj [(''type'', JStr ''response.create'')])])"
  by (simp add: send_audio_def Let_def)

lemma redacted_audio_effect:
  "status_calls (snd (redacted_audio cfg env output w)) = status_calls w \<and>
   (\<exists>evs. trace (snd (redacted_audio cfg env output w)) = trace w @ evs
          \<and> list_all after_success evs)"
proof (cases "py_getitem output ''processedFile''")
  case (Inl e)
  then show ?thesis by (simp add: redacted_audio_def)
next
  case (Inr v)
  show ?thesis
  proof (cases "py_b64decode v")
    case (Inl e)
    with Inr show ?thesis by (simp add: redacted_audio_def)
  next
    case bs: (Inr bs)
    let ?w1 = "emit (Print ''Processed audio saved as processed_output.wav'')
                 (write_file ''processed_output.wav'' bs w)"
    obtain r w2 where a: "audio_to_base64 env ''processed_output.wav'' ?w1 = (r, w2)"
      by (cases "audio_to_base64 env ''processed_output.wav'' ?w1")
    have w2: "status_calls w2 = status_calls w"
      "trace w2 = trace w @ [Write ''processed_output.wav'' bs,
         Print ''Processed audio saved as processed_output.wav'',
         Read ''processed_output.wav'']"
      using audio_to_base64_effect [of env "''processed_output.wav''" ?w1] a by simp_all
    show ?thesis
    proof (cases r)
      case (Inl e)
      with Inr bs a w2 show ?thesis
        by (simp add: redacted_audio_def Let_def)
    next
      case b: (Inr b)
      show ?thesis
      proof (cases "ws_handshake env")
        case (Some e)
        with Inr bs a b w2 show ?thesis
          by (simp add: redacted_audio_def Let_def)
      next
        case None
        let ?w3 = "emit (Print ''Connected to OpenAI Realtime API.'')
          (emit (Connect (URL_WS cfg)
                   [(''Authorization'', Some (''Bearer '' @ fmt (API_KEY cfg))),
                    (''OpenAI-Beta'', Some ''realtime=v1'')]) w2)"
        let ?w4 = "send_audio b ?w3"
        have r: "redacted_audio cfg env output w = receive_loop env [] (ws_messages env) ?w4"
          using Inr bs a b None
          by (simp add: redacted_audio_def Let_def)
        obtain evs4 where w4: "status_calls ?w4 = status_calls w"
          "trace ?w4 = trace w @ evs4" "list_all after_success evs4"
          using send_audio_effect [of b ?w3] w2 by auto
        from receive_loop_effect [of env "[]" "ws_messages env" ?w4]
        obtain evs where e:
          "status_calls (snd (receive_loop env [] (ws_messages env) ?w4)) = status_calls ?w4"
          "trace (snd (receive_loop env [] (ws_messages env) ?w4)) = trace ?w4 @ evs"
          "list_all reply_event evs" by blast
        have "trace (snd (redacted_audio cfg env output w)) = trace w @ (evs4 @ evs)"
          "list_all after_success (evs4 @ evs)"
          using e w4 by (simp_all add: r list_all_reply_after_success)
        moreover have "status_calls (snd (redacted_audio cfg env output w)) = status_calls w"
          using e w4 by (simp add: r)
        ultimately show ?thesis by blast
      qed
    qed
  qed
qed

lemma for_output_effect:
  "status_calls (snd (for_output cfg env xs w)) = status_calls w \<and>
   (\<exists>evs. trace (snd (for_output cfg env xs w)) = trace w @ evs \<and> list_all after_success evs)"
proof (induction xs)
  case Nil
  then show ?case by simp
next
  case (Cons x xs)
  then show ?case using redacted_audio_effect [of cfg env x w]
    by (simp split: sum.splits)
qed

lemma on_success_effect:
  "status_calls (snd (on_success cfg env j w)) = status_calls w \<and>
   (\<exists>evs. trace (snd (on_success cfg env j w)) = trace w @ evs \<and> list_all after_success evs)"
  using for_output_effect [of cfg env _ w]
  by (simp add: on_success_def split: sum.splits)

lemma check_status_world:
  "snd (check_status cfg env status_id w) =
     w\<lparr>status_calls := Suc (status_calls w),
       trace := trace w @ poll_request cfg status_id
         # (if status_code (status_endpoint env (status_calls w)) = 200 then []
            else [Print (''Error: '' @ str_nat (status_code (status_endpoint env (status_calls w)))
                         @ '' - '' @ resp_text (status_endpoint env (status_calls w)))])\<rparr>"
  by (simp add: check_status_def Let_def emit_def poll_request_def split: option.splits)

lemma poll_once_pending:
  assumes "pending_snapshot (status_endpoint env (status_calls w))"
  shows "poll_once cfg env status_id w =
     Inr (w\<lparr>status_calls := Suc (status_calls w),
            trace := trace w @ [poll_request cfg status_id,
              Print ''Processing... checking again in 2 seconds.'', Sleep 2]\<rparr>)"
proof -
  from assms obtain kvs where r: "status_code (status_endpoint env (status_calls w)) = 200"
    "body_json (status_endpoint env (status_calls w)) = Some (JObj kvs)"
    "map_of kvs ''status'' \<noteq> Some (JStr ''SUCCESS'')"
    "map_of kvs ''status'' \<noteq> Some (JStr ''FAILED'')"
    by (auto simp: pending_snapshot_def split: option.splits json.splits)
  have c: "check_status cfg env status_id w =
     (Inr (JObj kvs), w\<lparr>status_calls := Suc (status_calls w),
                        trace := trace w @ [poll_request cfg status_id]\<rparr>)"
    using r check_status_result [of cfg env status_id w] check_status_world [of cfg env status_id w]
    by (simp add: prod_eq_iff)
  have s: "is_success (JObj kvs) = Inr False"
    using r by (auto simp: is_success_def split: option.splits)
  have g: "\<exists>st. py_get (JObj kvs) ''status'' = Inr st \<and> st \<noteq> JStr ''FAILED''"
    using r by (auto split: option.splits)
  show ?thesis
    using c s g by (auto simp: poll_once_def emit_def)
qed

lemma poll_once_failed:
  assumes "failed_snapshot (status_endpoint env (status_calls w))"
  shows "poll_once cfg env status_id w =
     Inl (Inr (), w\<lparr>status_calls := Suc (status_calls w),
            trace := trace w @ [poll_request cfg status_id, Print ''Audio processing failed.'']\<rparr>)"
proof -
  from assms obtain kvs where r: "status_code (status_endpoint env (status_calls w)) = 200"
    "body_json (status_endpoint env (status_calls w)) = Some (JObj kvs)"
    "map_of kvs ''status'' = Some (JStr ''FAILED'')"
    by (auto simp: failed_snapshot_def split: option.splits json.splits)
  have c: "check_status cfg env status_id w =
     (Inr (JObj kvs), w\<lparr>status_calls := Suc (status_calls w),
                        trace := trace w @ [poll_request cfg status_id]\<rparr>)"
    using r check_status_result [of cfg env status_id w] check_status_world [of cfg env status_id w]
    by (simp add: prod_eq_iff)
  have s: "is_success (JObj kvs) = Inr False"
    using r by (auto simp: is_success_def split: option.splits)
  show ?thesis
    using c s r by (auto simp: poll_once_def emit_def)
qed

lemma poll_once_success:
  assumes "status_code (status_endpoint env (status_calls w)) = 200"
    and "body_json (status_endpoint env (status_calls w)) = Some (JObj kvs)"
    and "map_of kvs ''status'' = Some (JStr ''SUCCESS'')"
  shows "poll_once cfg env status_id w =
     Inl (on_success cfg env (JObj kvs)
            (w\<lparr>status_calls := Suc (status_calls w),
               trace := trace w @ [poll_request cfg status_id]\<rparr>))"
proof -
  have c: "check_status cfg env status_id w =
     (Inr (JObj kvs), w\<lparr>status_calls := Suc (status_calls w),
                        trace := trace w @ [poll_request cfg status_id]\<rparr>)"
    using assms check_status_result [of cfg env status_id w]
      check_status_world [of cfg env status_id w]
    by (simp add: prod_eq_iff)
  have s: "is_success (JObj kvs) = Inr True"
    using assms by (auto simp: is_success_def split: option.splits)
  show ?thesis
    using c s by (simp add: poll_once_def)
qed

lemma poll_once_absent:
  assumes "status_code (status_endpoint env (status_calls w)) \<noteq> 200"
  shows "poll_once cfg env status_id w =
     Inl (Inl AttributeError, w\<lparr>status_calls := Suc (status_calls w),
            trace := trace w @ [poll_request cfg status_id,
              Print (''Error: '' @ str_nat (status_code (status_endpoint env (status_calls w)))
                     @ '' - '' @ resp_text (status_endpoint env (status_calls w)))]\<rparr>)"
proof -
  have c: "check_status cfg env status_id w =
     (Inr JNull, w\<lparr>status_calls := Suc (status_calls w),
            trace := trace w @ [poll_request cfg status_id,
              Print (''Error: '' @ str_nat (status_code (status_endpoint env (status_calls w)))
                     @ '' - '' @ resp_text (status_endpoint env (status_calls w)))]\<rparr>)"
    using assms check_status_result [of cfg env status_id w]
      check_status_world [of cfg env status_id w]
    by (simp add: prod_eq_iff)
  show ?thesis
    using c by (simp add: poll_once_def is_success_def)
qed

lemma for_output_first_match:
  assumes "list_all other_output pre"
    and "py_getitem m ''processedFileType'' = Inr (JStr ''redacted_audio'')"
  shows "for_output cfg env (pre @ m # post) w = redacted_audio cfg env m w"
  using assms
  by (induction pre) (auto simp: other_output_def split: sum.splits)

lemma for_output_no_match:
  assumes "list_all other_output xs"
  shows "for_output cfg env xs w = (Inr (), w)"
  using assms
  by (induction xs) (auto simp: other_output_def split: sum.splits)

lemma poll_loop_pending:
  assumes "pending_snapshot (status_endpoint env (status_calls w))"
  shows "poll_loop cfg env status_id w =
     poll_loop cfg env status_id (w\<lparr>status_calls := Suc (status_calls w),
            trace := trace w @ [poll_request cfg status_id,
              Print ''Processing... checking again in 2 seconds.'', Sleep 2]\<rparr>)"
  by (subst poll_loop.simps) (simp add: poll_once_pending [OF assms])

lemma poll_loop_pending_n:
  assumes "\<forall>i<N. pending_snapshot (status_endpoint env (status_calls w + i))"
  shows "poll_loop cfg env status_id w =
     poll_loop cfg env status_id (w\<lparr>status_calls := status_calls w + N,
            trace := trace w @ concat (replicate N [poll_request cfg status_id,
              Print ''Processing... checking again in 2 seconds.'', Sleep 2])\<rparr>)"
  using assms
proof (induction N arbitrary: w)
  case 0
  then show ?case by simp
next
  case (Suc N)
  let ?w1 = "w\<lparr>status_calls := Suc (status_calls w),
            trace := trace w @ [poll_request cfg status_id,
              Print ''Processing... checking again in 2 seconds.'', Sleep 2]\<rparr>"
  have p0: "pending_snapshot (status_endpoint env (status_calls w))"
    using Suc.prems by (metis add.right_neutral zero_less_Suc)
  have pn: "\<forall>i<N. pending_snapshot (status_endpoint env (status_calls ?w1 + i))"
  proof (intro allI impI)
    fix i assume "i < N"
    then have "Suc i < Suc N" by simp
    from Suc.prems [rule_format, OF this]
    show "pending_snapshot (status_endpoint env (status_calls ?w1 + i))" by simp
  qed
  show ?case
    using Suc.IH [OF pn] poll_loop_pending [OF p0, of cfg status_id]
    by simp
qed

lemma poll_once_Inr:
  assumes "poll_once cfg env status_id w = Inr w'"
  shows "status_calls w' = Suc (status_calls w)
       \<and> \<not> failed_snapshot (status_endpoint env (status_calls w))
       \<and> trace w' = trace w @ [poll_request cfg status_id,
              Print ''Processing... checking again in 2 seconds.'', Sleep 2]"
proof (cases "failed_snapshot (status_endpoint env (status_calls w))")
  case True
  then show ?thesis using assms poll_once_failed [of env w cfg status_id] by simp
next
  case False
  obtain r w1 where c: "check_status cfg env status_id w = (r, w1)"
    by (cases "check_status cfg env status_id w")
  have w1: "status_calls w1 = Suc (status_calls w)"
    "status_code (status_endpoint env (status_calls w)) = 200
       \<Longrightarrow> trace w1 = trace w @ [poll_request cfg status_id]"
    using check_status_world [of cfg env status_id w] c by simp_all
  have ok: "status_code (status_endpoint env (status_calls w)) = 200"
    using assms poll_once_absent [of env w cfg status_id] by (cases "status_code (status_endpoint env (status_calls w)) = 200") simp_all
  show ?thesis
    using assms c w1 ok False
    by (auto simp: poll_once_def emit_def split: sum.splits if_splits)
qed

lemma on_success_status_calls:
  "on_success cfg env j w1 = (r, w') \<Longrightarrow> status_calls w' = status_calls w1"
  using on_success_effect [of cfg env j w1] by simp

lemma poll_once_Inl:
  assumes "poll_once cfg env status_id w = Inl (r, w')"
  shows "status_calls w' = Suc (status_calls w)"
proof -
  obtain r1 w1 where c: "check_status cfg env status_id w = (r1, w1)"
    by (cases "check_status cfg env status_id w")
  have w1: "status_calls w1 = Suc (status_calls w)"
    using check_status_world [of cfg env status_id w] c by simp
  show ?thesis
    using assms c w1
    by (auto simp: poll_once_def emit_def dest: on_success_status_calls split: sum.splits if_splits)
qed

section \<open>The two REST calls\<close>

text \<open>
  C7, as amended: the submit and the poll operation return the parsed JSON body exactly
  when the status code is 200 (and raise when that body is not JSON); with any other
  status code, other 2xx codes included, they print the status and the body and return
  \<^verbatim>\<open>None\<close> without an exception. Each sends its one request first.
\<close>

theorem rest_call_result:
  assumes "map_of (files w) file_path = Some wav"
  shows "fst (detect_audio cfg env file_path w) =
           (if status_code (detect_endpoint env) = 200
            then (case body_json (detect_endpoint env) of
                    None \<Rightarrow> Inl JSONDecodeError | Some j \<Rightarrow> Inr j)
            else Inr JNull)
       \<and> trace (snd (detect_audio cfg env file_path w)) =
           trace w @ Read file_path
             # Post (fmt (URL cfg) @ ''/v1/detect/file'')
                 [(''Content-Type'', Some ''application/json''),
                  (''x-skyflow-account-id'', SKYFLOW_ACCOUNT_ID cfg),
                  (''Authorization'', Some (''Bearer '' @ fmt (BEARER_TOKEN cfg)))]
                 (detect_payload cfg (b64encode wav))
             # (if status_code (detect_endpoint env) = 200 then []
                else [Print (''Error: '' @ str_nat (status_code (detect_endpoint env))
                             @ '' - '' @ resp_text (detect_endpoint env))])
       \<and> fst (check_status cfg env status_id w) =
           (if status_code (status_endpoint env (status_calls w)) = 200
            then (case body_json (status_endpoint env (status_calls w)) of
                    None \<Rightarrow> Inl JSONDecodeError | Some j \<Rightarrow> Inr j)
            else Inr JNull)
       \<and> trace (snd (check_status cfg env status_id w)) =
           trace w @ Get (fmt (URL cfg) @ ''/v1/detect/status/'' @ status_id @ ''?vault_id=''
                          @ fmt (VAULT_ID cfg))
                       [(''Authorization'', Some (''Bearer '' @ fmt (BEARER_TOKEN cfg)))]
             # (if status_code (status_endpoint env (status_calls w)) = 200 then []
                else [Print (''Error: ''
                             @ str_nat (status_code (status_endpoint env (status_calls w)))
                             @ '' - '' @ resp_text (status_endpoint env (status_calls w)))])"
  using assms
  by (simp only: detect_audio_result detect_audio_trace check_status_result check_status_trace
        simp_thms)

text \<open>
  C7 as stated fails: a response with status 201 is in the 2xx range, yet both
  operations return \<^verbatim>\<open>None\<close> instead of its parsed body.
\<close>

theorem status_201_counterexample:
  "200 \<le> status_code (response_ex 201 ''{}'' (snapshot_ex ''SUCCESS'' []))
   \<and> status_code (response_ex 201 ''{}'' (snapshot_ex ''SUCCESS'' [])) < 300
   \<and> fst (check_status cfg_ex
            (env_ex (status_ex [] (response_ex 201 ''{}'' (snapshot_ex ''SUCCESS'' []))) [])
            ''job-7'' world_ex) = Inr JNull
   \<and> fst (detect_audio cfg_ex
            ((env_ex (status_ex [] (response_ex 201 ''{}'' (snapshot_ex ''SUCCESS'' []))) [])
               \<lparr>detect_endpoint := response_ex 201 ''{}'' (snapshot_ex ''SUCCESS'' [])\<rparr>)
            ''input.wav'' world_rec_ex) = Inr JNull"
  by (simp add: check_status_result detect_audio_result response_ex_def env_ex_def status_ex_def
      world_ex_def world_rec_ex_def)

theorem rest_call_result_witness:
  "fst (detect_audio cfg_ex (env_ex (status_ex [] (response_ex 404 ''gone'' JNull)) [])
          ''input.wav'' world_rec_ex)
     = Inr (JObj [(''status_url'', JStr ''https://d.example/v1/detect/status/job-7'')])
   \<and> fst (check_status cfg_ex (env_ex (status_ex [] (response_ex 404 ''gone'' JNull)) [])
            ''job-7'' world_rec_ex) = Inr JNull
   \<and> trace (snd (check_status cfg_ex (env_ex (status_ex [] (response_ex 404 ''gone'' JNull)) [])
            ''job-7'' world_rec_ex))
     = [Get ''https://d.example/v1/detect/status/job-7?vault_id=v1''
          [(''Authorization'', Some ''Bearer tok'')],
        Print ''Error: 404 - gone'']"
proof -
  have f: "map_of (files world_rec_ex) ''input.wav'' = Some [82, 73, 70, 70]"
    by (simp add: world_rec_ex_def)
  have n: "str_nat 404 = ''404''" by code_simp
  show ?thesis
    using rest_call_result [OF f, of cfg_ex "env_ex (status_ex [] (response_ex 404 ''gone'' JNull)) []" "''job-7''"]
    by (simp add: response_ex_def env_ex_def status_ex_def world_rec_ex_def cfg_ex_def fmt_def digit_char_def)
qed

section \<open>The receive loop\<close>

text \<open>
  C8: an event whose \<open>type\<close> is neither \<^verbatim>\<open>response.audio.delta\<close> nor
  \<^verbatim>\<open>response.audio.done\<close> changes nothing: the loop goes on to the next message with
  the same accumulator and the same world.
\<close>

theorem other_event_ignored:
  assumes "py_get parsed_message ''type'' = Inr ty"
    and "ty \<noteq> JStr ''response.audio.delta''"
    and "ty \<noteq> JStr ''response.audio.done''"
  shows "receive_loop env accumulated_audio (Some parsed_message # rest) w
         = receive_loop env accumulated_audio rest w"
  using assms by simp

theorem other_event_ignored_witness:
  "receive_loop (env_ex (status_ex [] (response_ex 500 [] JNull)) []) ''QQ==''
     [Some (JObj [(''type'', JStr ''response.created'')]), Some audio_done] world_ex
   = receive_loop (env_ex (status_ex [] (response_ex 500 [] JNull)) []) ''QQ==''
       [Some audio_done] world_ex"
  using other_event_ignored [of "JObj [(''type'', JStr ''response.created'')]"
      "JStr ''response.created''" "env_ex (status_ex [] (response_ex 500 [] JNull)) []"
      "''QQ==''" "[Some audio_done]" world_ex]
  by simp

text \<open>
  C3: after the three fragments \<^verbatim>\<open>QQ==\<close>, \<^verbatim>\<open>Qg==\<close>, \<^verbatim>\<open>Qw==\<close> and the completion
  event, the reply is saved from the accumulator \<^verbatim>\<open>QQ==Qg==Qw==\<close>, the plain
  concatenation. Decoding that string once gives the single byte 65, because the
  decoder stops at the first complete padding; the three fragments decoded one by one
  give 65, 66 and 67.
\<close>

theorem three_deltas_then_done:
  "receive_loop env [] [Some (audio_delta ''QQ==''), Some (audio_delta ''Qg==''),
       Some (audio_delta ''Qw==''), Some audio_done] w
     = on_audio_done env ''QQ==Qg==Qw=='' w
   \<and> b64decode ''QQ==Qg==Qw=='' = Inr [65]
   \<and> b64decode ''QQ=='' = Inr [65] \<and> b64decode ''Qg=='' = Inr [66]
   \<and> b64decode ''Qw=='' = Inr [67]"
proof (intro conjI)
  show "receive_loop env [] [Some (audio_delta ''QQ==''), Some (audio_delta ''Qg==''),
       Some (audio_delta ''Qw==''), Some audio_done] w
     = on_audio_done env ''QQ==Qg==Qw=='' w"
    by (simp add: audio_delta_def audio_done_def)
  show "b64decode ''QQ==Qg==Qw=='' = Inr [65]" by code_simp
  show "b64decode ''QQ=='' = Inr [65]" by code_simp
  show "b64decode ''Qg=='' = Inr [66]" by code_simp
  show "b64decode ''Qw=='' = Inr [67]" by code_simp
qed

end
